theory Spec2Isabelle
  imports Complex_Main
begin

section \<open>Python values, errors and strings\<close>

text \<open>
  The model follows \<^verbatim>\<open>python/pfs/datamodel/pfsFiberProfiles.py\<close> and
  \<^verbatim>\<open>python/pfs/datamodel/drp.py\<close>.  A Python exception is a value of type
  \<open>error\<close>; a function that may raise returns \<open>error + 'a\<close> with \<open>Inl\<close> for the
  exception.  Strings are lists of 8-bit characters.  Floating-point numbers are modelled
  as rationals (finite values, exact arithmetic).
\<close>

datatype error =
    AssertionError
  | AttributeError string
  | RuntimeError string
  | KeyError string
  | TypeError
  | ValueError
  | MaskError
  | IndexError
  | FileNotFoundError string

datatype pyval = PInt int | PStr string

definition ebind :: "error + 'a \<Rightarrow> ('a \<Rightarrow> error + 'b) \<Rightarrow> error + 'b" where
  "ebind m f = (case m of Inl e \<Rightarrow> Inl e | Inr x \<Rightarrow> f x)"

definition is_digit :: "char \<Rightarrow> bool" where
  "is_digit c = (c \<in> set ''0123456789'')"

definition is_hexdigit :: "char \<Rightarrow> bool" where
  "is_hexdigit c = (c \<in> set ''0123456789abcdefABCDEF'')"

text \<open>Whitespace as Python's \<^verbatim>\<open>str.isspace\<close> and the regex class \<^verbatim>\<open>\s\<close> see it, for
  characters below 256: codes 9 to 13, 28 to 32, 133 and 160.\<close>

definition is_space :: "char \<Rightarrow> bool" where
  "is_space c = ((of_char c :: nat) \<in> {9, 10, 11, 12, 13, 28, 29, 30, 31, 32, 133, 160})"

definition newline :: char where
  "newline = CHR 0x0A"

definition digit_char :: "int \<Rightarrow> char" where
  "digit_char n = ''0123456789abcdef'' ! nat (n mod 16)"

text \<open>The value of a digit is its position among the digits; the upper-case hexadecimal
  digits follow the lower-case ones in the list and count as those do.\<close>

definition digit_val :: "char \<Rightarrow> int" where
  "digit_val c =
     (let i = length (takeWhile (\<lambda>d. d \<noteq> c) ''0123456789abcdefABCDEF'')
      in int (if i < 16 then i else i - 6))"

text \<open>The digits of a non-negative integer in base \<open>b\<close>, most significant first.\<close>

function to_base :: "int \<Rightarrow> int \<Rightarrow> string" where
  "to_base b n =
     (if n < b \<or> b < 2 then [digit_char n] else to_base b (n div b) @ [digit_char (n mod b)])"
  by pat_completeness auto
termination
  by (relation "measure (\<lambda>(b, n). nat n)") (auto simp add: int_div_less_self)

declare to_base.simps [simp del]

text \<open>The value of a digit string in base \<open>b\<close> (Horner's rule, left to right).\<close>

definition of_base :: "int \<Rightarrow> string \<Rightarrow> int" where
  "of_base b s = foldl (\<lambda>acc c. b * acc + digit_val c) 0 s"

definition py_str_int :: "int \<Rightarrow> string" where
  "py_str_int i = (if i < 0 then ''-'' else []) @ to_base 10 \<bar>i\<bar>"

definition py_str :: "pyval \<Rightarrow> string" where
  "py_str v = (case v of PInt i \<Rightarrow> py_str_int i | PStr s \<Rightarrow> s)"

definition strip :: "string \<Rightarrow> string" where
  "strip s = rev (dropWhile is_space (rev (dropWhile is_space s)))"

text \<open>
  \<^verbatim>\<open>int(s)\<close> for a string: surrounding whitespace is dropped, one sign is allowed, and the
  rest is decimal digits in which single underscores may separate digits.  Anything else
  raises \<^verbatim>\<open>ValueError\<close>.
\<close>

fun underscores_ok :: "string \<Rightarrow> bool" where
  "underscores_ok [] = True"
| "underscores_ok [c] = is_digit c"
| "underscores_ok (c # d # s) =
     (if c = CHR ''_'' then is_digit d \<and> underscores_ok (d # s) else underscores_ok (d # s))"

definition int_literal :: "string \<Rightarrow> error + int" where
  "int_literal s =
     (if s \<noteq> [] \<and> is_digit (hd s) \<and> list_all (\<lambda>c. is_digit c \<or> c = CHR ''_'') s \<and> underscores_ok s
      then Inr (of_base 10 (filter is_digit s)) else Inl ValueError)"

definition py_int_str :: "string \<Rightarrow> error + int" where
  "py_int_str s0 =
     (let s = strip s0 in
      case s of
        [] \<Rightarrow> Inl ValueError
      | c # t \<Rightarrow>
          if c = CHR ''-'' then ebind (int_literal t) (\<lambda>n. Inr (- n))
          else if c = CHR ''+'' then ebind (int_literal t) (\<lambda>n. Inr n)
          else ebind (int_literal s) (\<lambda>n. Inr n))"

definition py_int :: "pyval \<Rightarrow> error + int" where
  "py_int v = (case v of PInt i \<Rightarrow> Inr i | PStr s \<Rightarrow> py_int_str s)"

subsection \<open>The \<^verbatim>\<open>%\<close> operator on a format string and a dict\<close>

text \<open>
  \<^verbatim>\<open>fmt % d\<close> for a dictionary \<open>d\<close>, for the directives the filename formats use:
  \<^verbatim>\<open>%(key)\<close>, an optional \<^verbatim>\<open>0\<close> flag, an optional width, and one of the conversions
  \<^verbatim>\<open>d\<close>, \<^verbatim>\<open>x\<close>, \<^verbatim>\<open>s\<close>.  The format is read one character at a time; \<open>fstate\<close> is
  where the reader stands.  A dictionary is an association list looked up with \<open>map_of\<close>.
\<close>

datatype fstate =
    FText
  | FPercent
  | FKey string
  | FSpec pyval bool bool nat

definition pad_left :: "char \<Rightarrow> nat \<Rightarrow> string \<Rightarrow> string" where
  "pad_left c n s = replicate (n - length s) c @ s"

definition pad_num :: "bool \<Rightarrow> nat \<Rightarrow> string \<Rightarrow> string \<Rightarrow> string" where
  "pad_num zero n sg ds =
     (if zero then sg @ replicate (n - length sg - length ds) (CHR ''0'') @ ds
      else pad_left (CHR '' '') n (sg @ ds))"

definition fmt_int :: "int \<Rightarrow> bool \<Rightarrow> nat \<Rightarrow> int \<Rightarrow> string" where
  "fmt_int b zero n i = pad_num zero n (if i < 0 then ''-'' else []) (to_base b \<bar>i\<bar>)"

definition fmt_convert :: "char \<Rightarrow> pyval \<Rightarrow> bool \<Rightarrow> nat \<Rightarrow> error + string" where
  "fmt_convert c v zero n =
     (if c = CHR ''d'' then (case v of PInt i \<Rightarrow> Inr (fmt_int 10 zero n i) | PStr s \<Rightarrow> Inl TypeError)
      else if c = CHR ''x'' then (case v of PInt i \<Rightarrow> Inr (fmt_int 16 zero n i) | PStr s \<Rightarrow> Inl TypeError)
      else if c = CHR ''s'' then Inr (pad_left (CHR '' '') n (py_str v))
      else Inl ValueError)"

fun fmt_run :: "fstate \<Rightarrow> (string \<times> pyval) list \<Rightarrow> string \<Rightarrow> error + string" where
  "fmt_run st d [] = (case st of FText \<Rightarrow> Inr [] | _ \<Rightarrow> Inl ValueError)"
| "fmt_run FText d (c # cs) =
     (if c = CHR ''%'' then fmt_run FPercent d cs
      else ebind (fmt_run FText d cs) (\<lambda>r. Inr (c # r)))"
| "fmt_run FPercent d (c # cs) =
     (if c = CHR ''%'' then ebind (fmt_run FText d cs) (\<lambda>r. Inr (c # r))
      else if c = CHR 0x28 then fmt_run (FKey []) d cs
      else Inl TypeError)"
| "fmt_run (FKey k) d (c # cs) =
     (if c = CHR 0x29 then
        (case map_of d k of
           None \<Rightarrow> Inl (KeyError k)
         | Some v \<Rightarrow> fmt_run (FSpec v False False 0) d cs)
      else fmt_run (FKey (k @ [c])) d cs)"
| "fmt_run (FSpec v zero started n) d (c # cs) =
     (if c = CHR ''0'' \<and> \<not> started then fmt_run (FSpec v True False n) d cs
      else if is_digit c then fmt_run (FSpec v zero True (10 * n + nat (digit_val c))) d cs
      else ebind (fmt_convert c v zero n) (\<lambda>s. ebind (fmt_run FText d cs) (\<lambda>r. Inr (s @ r))))"

definition py_format :: "string \<Rightarrow> (string \<times> pyval) list \<Rightarrow> error + string" where
  "py_format fmt d = fmt_run FText d fmt"


section \<open>Regular expressions\<close>

text \<open>
  The filename patterns use character classes, fixed repetition, one greedy \<^verbatim>\<open>.*\<close>,
  groups that do not nest, and the anchors \<^verbatim>\<open>^\<close> and \<^verbatim>\<open>$\<close>.  A pattern is a list of
  tokens; \<^verbatim>\<open>\d{6}\<close> is six \<open>C Digit\<close> tokens.  \<open>rmatch\<close> matches a pattern at one
  position, backtracking over a greedy star from the longest run to the shortest, as
  Python's \<^verbatim>\<open>re\<close> does; \<open>re_search\<close> tries every start position from the left, as
  \<^verbatim>\<open>re.search\<close> does, and returns the captured groups of the first match.
\<close>

datatype cclass =
    Lit char
  | Digit
  | NonSpace
  | Dot
  | OneOf string

fun cmatch :: "cclass \<Rightarrow> char \<Rightarrow> bool" where
  "cmatch (Lit a) c = (c = a)"
| "cmatch Digit c = is_digit c"
| "cmatch NonSpace c = (\<not> is_space c)"
| "cmatch Dot c = (c \<noteq> newline)"
| "cmatch (OneOf s) c = (c \<in> set s)"

datatype tok =
    C cclass
  | Star cclass
  | GOpen "string option"
  | GClose
  | Bol
  | Eol

type_synonym capture = "string option \<times> string"

fun first_some :: "(nat \<Rightarrow> 'a option) \<Rightarrow> nat \<Rightarrow> 'a option" where
  "first_some f 0 = f 0"
| "first_some f (Suc k) = (case f (Suc k) of Some r \<Rightarrow> Some r | None \<Rightarrow> first_some f k)"

text \<open>
  \<open>rmatch ts at0 s cur gs\<close>: the tokens still to match, whether the position is the start
  of the string, the rest of the string, the group being captured (its name and its text
  so far) and the groups already closed, last first.
\<close>

fun rmatch :: "tok list \<Rightarrow> bool \<Rightarrow> string \<Rightarrow> capture option \<Rightarrow> capture list \<Rightarrow> capture list option" where
  "rmatch [] at0 s cur gs = Some (rev gs)"
| "rmatch (C c # ts) at0 s cur gs =
     (case s of
        [] \<Rightarrow> None
      | x # s' \<Rightarrow>
          if cmatch c x then rmatch ts False s' (map_option (\<lambda>(n, g). (n, g @ [x])) cur) gs
          else None)"
| "rmatch (Star c # ts) at0 s cur gs =
     first_some
       (\<lambda>k. rmatch ts (at0 \<and> k = 0) (drop k s) (map_option (\<lambda>(n, g). (n, g @ take k s)) cur) gs)
       (length (takeWhile (cmatch c) s))"
| "rmatch (GOpen n # ts) at0 s cur gs = rmatch ts at0 s (Some (n, [])) gs"
| "rmatch (GClose # ts) at0 s cur gs =
     (case cur of None \<Rightarrow> None | Some g \<Rightarrow> rmatch ts at0 s None (g # gs))"
| "rmatch (Bol # ts) at0 s cur gs = (if at0 then rmatch ts at0 s cur gs else None)"
| "rmatch (Eol # ts) at0 s cur gs =
     (if s = [] \<or> s = [newline] then rmatch ts at0 s cur gs else None)"

fun re_search_from :: "tok list \<Rightarrow> bool \<Rightarrow> string \<Rightarrow> capture list option" where
  "re_search_from p at0 [] = rmatch p at0 [] None []"
| "re_search_from p at0 (x # s) =
     (case rmatch p at0 (x # s) None [] of
        Some m \<Rightarrow> Some m
      | None \<Rightarrow> re_search_from p False s)"

definition re_search :: "tok list \<Rightarrow> string \<Rightarrow> capture list option" where
  "re_search p s = re_search_from p True s"

definition groups :: "capture list \<Rightarrow> string list" where
  "groups m = map snd m"

primrec groupdict :: "capture list \<Rightarrow> (string \<times> pyval) list" where
  "groupdict [] = []"
| "groupdict (g # m) =
     (case fst g of None \<Rightarrow> groupdict m | Some n \<Rightarrow> (n, PStr (snd g)) # groupdict m)"

definition lits :: "string \<Rightarrow> tok list" where
  "lits s = map (\<lambda>c. C (Lit c)) s"

definition rep :: "nat \<Rightarrow> cclass \<Rightarrow> tok list" where
  "rep n c = replicate n (C c)"

definition grp :: "tok list \<Rightarrow> tok list" where
  "grp ts = GOpen None # ts @ [GClose]"

definition named :: "string \<Rightarrow> tok list \<Rightarrow> tok list" where
  "named n ts = GOpen (Some n) # ts @ [GClose]"

section \<open>Paths\<close>

text \<open>\<^verbatim>\<open>os.path.split\<close> and \<^verbatim>\<open>os.path.join\<close> on POSIX paths.  The tail is what follows
  the last slash; the head loses its trailing slashes unless it consists of slashes only.\<close>

definition os_path_split :: "string \<Rightarrow> string \<times> string" where
  "os_path_split p =
     (let tail = rev (takeWhile (\<lambda>c. c \<noteq> CHR ''/'') (rev p));
          hd0 = rev (dropWhile (\<lambda>c. c \<noteq> CHR ''/'') (rev p));
          hd1 = rev (dropWhile (\<lambda>c. c = CHR ''/'') (rev hd0))
      in (if hd1 = [] then hd0 else hd1, tail))"

definition os_path_join :: "string \<Rightarrow> string \<Rightarrow> string" where
  "os_path_join a b =
     (if b \<noteq> [] \<and> hd b = CHR ''/'' then b
      else if a = [] \<or> last a = CHR ''/'' then a @ b
      else a @ ''/'' @ b)"


section \<open>Calibration identity\<close>

text \<open>
  \<^verbatim>\<open>CalibIdentity\<close> is a \<^verbatim>\<open>SimpleNamespace\<close> with four attributes; its constructor
  applies \<^verbatim>\<open>int\<close> to \<^verbatim>\<open>spectrograph\<close> and \<^verbatim>\<open>visit0\<close> and stores the other two as
  given.
\<close>

record calibIdentity =
  obsDate :: pyval
  spectrograph :: int
  arm :: pyval
  visit0 :: int

definition elements :: "string list" where
  "elements = [''obsDate'', ''spectrograph'', ''arm'', ''visit0'']"

definition CalibIdentity_init :: "pyval \<Rightarrow> pyval \<Rightarrow> pyval \<Rightarrow> pyval \<Rightarrow> error + calibIdentity" where
  "CalibIdentity_init od sp ar v0 =
     ebind (py_int sp) (\<lambda>sp'.
     ebind (py_int v0) (\<lambda>v0'.
       Inr \<lparr>obsDate = od, spectrograph = sp', arm = ar, visit0 = v0'\<rparr>))"

definition lookup :: "(string \<times> pyval) list \<Rightarrow> string \<Rightarrow> error + pyval" where
  "lookup d k = (case map_of d k of None \<Rightarrow> Inl (KeyError k) | Some v \<Rightarrow> Inr v)"

definition fromDict :: "(string \<times> pyval) list \<Rightarrow> error + calibIdentity" where
  "fromDict identity =
     ebind (lookup identity ''obsDate'') (\<lambda>od.
     ebind (lookup identity ''spectrograph'') (\<lambda>sp.
     ebind (lookup identity ''arm'') (\<lambda>ar.
     ebind (lookup identity ''visit0'') (\<lambda>v0.
       CalibIdentity_init od sp ar v0))))"

definition toDict :: "calibIdentity \<Rightarrow> (string \<times> pyval) list" where
  "toDict i =
     [(''obsDate'', obsDate i), (''spectrograph'', PInt (spectrograph i)),
      (''arm'', arm i), (''visit0'', PInt (visit0 i))]"

text \<open>
  Attribute lookup on a \<^verbatim>\<open>CalibIdentity\<close>: the four instance attributes, then what the
  class defines (\<^verbatim>\<open>elements\<close>, \<^verbatim>\<open>fromDict\<close>, \<^verbatim>\<open>toDict\<close>).  No other name that is not a
  double-underscore name of \<^verbatim>\<open>SimpleNamespace\<close> is found, and the lookup raises
  \<^verbatim>\<open>AttributeError\<close>.
\<close>

datatype attr =
    Field pyval
  | Elements
  | Method_fromDict
  | Method_toDict

definition CalibIdentity_getattr :: "calibIdentity \<Rightarrow> string \<Rightarrow> error + attr" where
  "CalibIdentity_getattr i name =
     (if name = ''obsDate'' then Inr (Field (obsDate i))
      else if name = ''spectrograph'' then Inr (Field (PInt (spectrograph i)))
      else if name = ''arm'' then Inr (Field (arm i))
      else if name = ''visit0'' then Inr (Field (PInt (visit0 i)))
      else if name = ''elements'' then Inr Elements
      else if name = ''fromDict'' then Inr Method_fromDict
      else if name = ''toDict'' then Inr Method_toDict
      else Inl (AttributeError name))"

text \<open>\<^verbatim>\<open>identity.name()\<close>: look the attribute up and call it with no argument.\<close>

definition call0 :: "calibIdentity \<Rightarrow> string \<Rightarrow> error + (string \<times> pyval) list" where
  "call0 i name =
     ebind (CalibIdentity_getattr i name) (\<lambda>a.
       case a of Method_toDict \<Rightarrow> Inr (toDict i) | _ \<Rightarrow> Inl TypeError)"

section \<open>Filenames of \<^verbatim>\<open>PfsFiberProfiles\<close>\<close>

definition PfsFiberProfiles_filenameFormat :: string where
  "PfsFiberProfiles_filenameFormat =
     ''pfsFiberProfiles-%(obsDate)10s-%(visit0)06d-%(arm)1s%(spectrograph)1d.fits''"

text \<open>\<^verbatim>\<open>pfsFiberProfiles-(?P<obsDate>\S{10})-(?P<visit0>\d{6})-(?P<arm>\S)(?P<spectrograph>\d).fits\<close>\<close>

definition PfsFiberProfiles_filenameRegex :: "tok list" where
  "PfsFiberProfiles_filenameRegex =
     lits ''pfsFiberProfiles-'' @ named ''obsDate'' (rep 10 NonSpace) @ lits ''-''
     @ named ''visit0'' (rep 6 Digit) @ lits ''-''
     @ named ''arm'' [C NonSpace] @ named ''spectrograph'' [C Digit]
     @ [C Dot] @ lits ''fits''"

definition getFilename :: "calibIdentity \<Rightarrow> error + string" where
  "getFilename identity =
     ebind (call0 identity ''getDict'') (\<lambda>d. py_format PfsFiberProfiles_filenameFormat d)"

definition parseFilename :: "string \<Rightarrow> error + calibIdentity" where
  "parseFilename path =
     (let fileName = snd (os_path_split path) in
      case re_search PfsFiberProfiles_filenameRegex fileName of
        None \<Rightarrow> Inl (RuntimeError (''Unable to parse filename: '' @ fileName))
      | Some matches \<Rightarrow> fromDict (groupdict matches))"

section \<open>Filenames of the reduction products\<close>

text \<open>
  \<^verbatim>\<open>drp.py\<close> gives each product class a format, a regex and a list of keys with their
  types.  The three tables are copied from the source.
\<close>

datatype pytype = T_int | T_str

record product =
  filenameFormat :: string
  filenameRegex :: "tok list"
  filenameKeys :: "(string \<times> pytype) list"

text \<open>\<^verbatim>\<open>^pfsArm-(\d{6})-([brnm])(\d)\.fits.*$\<close>\<close>

definition PfsArm :: product where
  "PfsArm = \<lparr>
     filenameFormat = ''pfsArm-%(expId)06d-%(arm)1s%(spectrograph)1d.fits'',
     filenameRegex = [Bol] @ lits ''pfsArm-'' @ grp (rep 6 Digit) @ lits ''-''
       @ grp [C (OneOf ''brnm'')] @ grp [C Digit] @ lits ''.fits'' @ [Star Dot, Eol],
     filenameKeys = [(''expId'', T_int), (''arm'', T_str), (''spectrograph'', T_int)]\<rparr>"

text \<open>\<^verbatim>\<open>^pfsMerged-(\d{6})\.fits.*$\<close>\<close>

definition PfsMerged :: product where
  "PfsMerged = \<lparr>
     filenameFormat = ''pfsMerged-%(expId)06d.fits'',
     filenameRegex = [Bol] @ lits ''pfsMerged-'' @ grp (rep 6 Digit) @ lits ''.fits''
       @ [Star Dot, Eol],
     filenameKeys = [(''expId'', T_int)]\<rparr>"

text \<open>\<^verbatim>\<open>^pfsReference-(\d{3})-(\d{5})-(.*)-(0x.{8})\.fits.*$\<close>\<close>

definition PfsReference :: product where
  "PfsReference = \<lparr>
     filenameFormat = ''pfsReference-%(catId)03d-%(tract)05d-%(patch)s-%(objId)016x.fits'',
     filenameRegex = [Bol] @ lits ''pfsReference-'' @ grp (rep 3 Digit) @ lits ''-''
       @ grp (rep 5 Digit) @ lits ''-'' @ grp [Star Dot] @ lits ''-''
       @ grp (lits ''0x'' @ rep 8 Dot) @ lits ''.fits'' @ [Star Dot, Eol],
     filenameKeys = [(''catId'', T_int), (''tract'', T_int), (''patch'', T_str), (''objId'', T_int)]\<rparr>"

text \<open>\<^verbatim>\<open>^pfsSingle-(\d{3})-(\d{5})-(.*)-(0x.{16})-(\d{6})\.fits.*$\<close>\<close>

definition PfsSingle :: product where
  "PfsSingle = \<lparr>
     filenameFormat =
       ''pfsSingle-%(catId)03d-%(tract)05d-%(patch)s-%(objId)016x-%(expId)06d.fits'',
     filenameRegex = [Bol] @ lits ''pfsSingle-'' @ grp (rep 3 Digit) @ lits ''-''
       @ grp (rep 5 Digit) @ lits ''-'' @ grp [Star Dot] @ lits ''-''
       @ grp (lits ''0x'' @ rep 16 Dot) @ lits ''-'' @ grp (rep 6 Digit) @ lits ''.fits''
       @ [Star Dot, Eol],
     filenameKeys = [(''catId'', T_int), (''tract'', T_int), (''patch'', T_str), (''objId'', T_int),
       (''expId'', T_int)]\<rparr>"

text \<open>\<^verbatim>\<open>^pfsObject-(\d{3})-(\d{5})-(.*)-(0x.{16})-(\d{3})-(0x.{8})\.fits.*$\<close>\<close>

definition PfsObject :: product where
  "PfsObject = \<lparr>
     filenameFormat =
       ''pfsObject-%(catId)03d-%(tract)05d-%(patch)s-%(objId)016x-%(numExp)03d-%(expHash)08x.fits'',
     filenameRegex = [Bol] @ lits ''pfsObject-'' @ grp (rep 3 Digit) @ lits ''-''
       @ grp (rep 5 Digit) @ lits ''-'' @ grp [Star Dot] @ lits ''-''
       @ grp (lits ''0x'' @ rep 16 Dot) @ lits ''-'' @ grp (rep 3 Digit) @ lits ''-''
       @ grp (lits ''0x'' @ rep 8 Dot) @ lits ''.fits'' @ [Star Dot, Eol],
     filenameKeys = [(''catId'', T_int), (''tract'', T_int), (''patch'', T_str), (''objId'', T_int),
       (''numExp'', T_int), (''expHash'', T_int)]\<rparr>"

text \<open>
  Modelled from the spec: the \<^verbatim>\<open>getFilename\<close> and \<^verbatim>\<open>parseFilename\<close> class methods of
  the reduction products, which live in base classes (\<^verbatim>\<open>PfsSpectra\<close>,
  \<^verbatim>\<open>PfsSimpleSpectrum\<close>) outside the files at hand.  The spec: the filename is rendered
  from the format template and fails when a key is absent; parsing strips the directory,
  matches the basename against the regex, coerces the captured groups to the declared
  types (\<^verbatim>\<open>objId\<close> and \<^verbatim>\<open>expHash\<close> parsed from hex), and fails with a parse error when the
  regex does not match.  The identity is the dictionary of the keys in declaration order.
\<close>

definition hex_literal :: "string \<Rightarrow> error + int" where
  "hex_literal s =
     (let t = (if take 2 s = ''0x'' \<or> take 2 s = ''0X'' then drop 2 s else s) in
      if t \<noteq> [] \<and> list_all is_hexdigit t then Inr (of_base 16 t) else Inl ValueError)"

definition coerce :: "string \<times> pytype \<Rightarrow> string \<Rightarrow> error + pyval" where
  "coerce kt g =
     (case snd kt of
        T_str \<Rightarrow> Inr (PStr g)
      | T_int \<Rightarrow>
          if fst kt = ''objId'' \<or> fst kt = ''expHash'' then ebind (hex_literal g) (\<lambda>i. Inr (PInt i))
          else ebind (py_int_str g) (\<lambda>i. Inr (PInt i)))"

fun coerce_all :: "(string \<times> pytype) list \<Rightarrow> string list \<Rightarrow> error + (string \<times> pyval) list" where
  "coerce_all (kt # kts) (g # gs) =
     ebind (coerce kt g) (\<lambda>v. ebind (coerce_all kts gs) (\<lambda>r. Inr ((fst kt, v) # r)))"
| "coerce_all kts gs = Inr []"

definition product_getFilename :: "product \<Rightarrow> (string \<times> pyval) list \<Rightarrow> error + string" where
  "product_getFilename cls identity = py_format (filenameFormat cls) identity"

definition product_parseFilename :: "product \<Rightarrow> string \<Rightarrow> error + (string \<times> pyval) list" where
  "product_parseFilename cls path =
     (let fileName = snd (os_path_split path) in
      case re_search (filenameRegex cls) fileName of
        None \<Rightarrow> Inl (RuntimeError (''Unable to parse filename: '' @ fileName))
      | Some matches \<Rightarrow> coerce_all (filenameKeys cls) (groups matches))"


section \<open>The FITS container\<close>

text \<open>
  A file holds a primary header and the two binary tables \<^verbatim>\<open>FIBERS\<close> and \<^verbatim>\<open>PROFILES\<close>,
  each a record of its columns.  A cell holds a value of its column's type, so the
  table codec stores and returns it unchanged; the columns of one table have the same
  number of rows.
\<close>

datatype pod = HStr string | HInt int | HFloat rat | HBool bool

record fibersHdu =
  f_fiberId :: "int list"
  f_radius :: "int list"
  f_oversample :: "rat list"
  f_norm :: "rat list list"

record profilesHdu =
  p_fiberId :: "int list"
  p_rows :: "rat list"
  p_profiles :: "rat list list"
  p_masks :: "bool list list"

record fits =
  header :: "(string \<times> pod) list"
  FIBERS :: fibersHdu
  PROFILES :: profilesHdu

text \<open>
  Modelled from the spec: \<^verbatim>\<open>astropyHeaderFromDict\<close> and \<^verbatim>\<open>astropyHeaderToDict\<close> of
  \<^verbatim>\<open>utils.py\<close>, which is not among the files at hand.  The spec: keywords are uppercased
  on emit; unknown keys are preserved on read.
\<close>

definition to_upper :: "char \<Rightarrow> char" where
  "to_upper c =
     (if (97::nat) \<le> of_char c \<and> (of_char c :: nat) \<le> 122 then char_of (of_char c - (32::nat)) else c)"

definition hset :: "string \<Rightarrow> pod \<Rightarrow> (string \<times> pod) list \<Rightarrow> (string \<times> pod) list" where
  "hset k v h =
     (if k \<in> fst ` set h then map (\<lambda>kv. if fst kv = k then (k, v) else kv) h else h @ [(k, v)])"

definition astropyHeaderFromDict :: "(string \<times> pod) list \<Rightarrow> (string \<times> pod) list" where
  "astropyHeaderFromDict m = foldl (\<lambda>h kv. hset (map to_upper (fst kv)) (snd kv) h) [] m"

definition astropyHeaderToDict :: "(string \<times> pod) list \<Rightarrow> (string \<times> pod) list" where
  "astropyHeaderToDict h = h"

section \<open>\<^verbatim>\<open>PfsFiberProfiles\<close>\<close>

text \<open>
  A row of a fiber's profile array is either a masked array (its data and its boolean
  mask array) or an array that is not a \<^verbatim>\<open>MaskedArray\<close>; the writer branches on that.
  numpy's scalar \<^verbatim>\<open>nomask\<close> is outside the model: a masked row carries a mask array.
\<close>

datatype prow = MaskedRow "rat list" "bool list" | PlainRow "rat list"

fun row_data :: "prow \<Rightarrow> rat list" where
  "row_data (MaskedRow d m) = d"
| "row_data (PlainRow d) = d"

record pfsFiberProfiles =
  identity :: calibIdentity
  fiberId :: "int list"
  radius :: "int list"
  oversample :: "rat list"
  rows :: "rat list list"
  profiles :: "prow list list"
  normF :: "rat list list"
  metadata :: "(string \<times> pod) list"
  lengthF :: nat

text \<open>\<^verbatim>\<open>int(x)\<close> on a float truncates towards zero.\<close>

definition py_trunc :: "rat \<Rightarrow> int" where
  "py_trunc x = (if 0 \<le> x then \<lfloor>x\<rfloor> else \<lceil>x\<rceil>)"

definition profile_width :: "int \<Rightarrow> rat \<Rightarrow> int" where
  "profile_width rad samp = py_trunc (2 * (of_int rad + 1) * samp) + 1"

text \<open>\<^verbatim>\<open>validate\<close>: the assertions in the order of the source.  Every failure is the
  same \<^verbatim>\<open>AssertionError\<close>, raised with no message.\<close>

definition validate :: "pfsFiberProfiles \<Rightarrow> error + unit" where
  "validate p =
     (if length (fiberId p) \<noteq> lengthF p then Inl AssertionError
      else if length (radius p) \<noteq> lengthF p then Inl AssertionError
      else if length (oversample p) \<noteq> lengthF p then Inl AssertionError
      else if length (rows p) \<noteq> lengthF p then Inl AssertionError
      else if length (profiles p) \<noteq> lengthF p then Inl AssertionError
      else if \<not> list_all (\<lambda>rp. length (fst rp) = length (snd rp)) (zip (rows p) (profiles p))
        then Inl AssertionError
      else if \<not> list_all
            (\<lambda>x. list_all (\<lambda>pp. int (length (row_data pp)) = profile_width (fst (snd x)) (snd (snd x)))
                   (fst x))
            (zip (profiles p) (zip (radius p) (oversample p)))
        then Inl AssertionError
      else if length (normF p) \<noteq> lengthF p then Inl AssertionError
      else Inr ())"

definition init ::
  "calibIdentity \<Rightarrow> int list \<Rightarrow> int list \<Rightarrow> rat list \<Rightarrow> rat list list \<Rightarrow> prow list list
     \<Rightarrow> rat list list \<Rightarrow> (string \<times> pod) list \<Rightarrow> error + pfsFiberProfiles" where
  "init ident fid rad samp rws profs nrm meta =
     (let p = \<lparr>identity = ident, fiberId = fid, radius = rad, oversample = samp, rows = rws,
                profiles = profs, normF = nrm, metadata = meta, lengthF = length fid\<rparr>
      in ebind (validate p) (\<lambda>u. Inr p))"

subsection \<open>Writing\<close>

text \<open>\<^verbatim>\<open>a[start:start + num] = v\<close> on an array long enough to hold the slice.\<close>

definition slice_assign :: "'a list \<Rightarrow> nat \<Rightarrow> 'a list \<Rightarrow> 'a list" where
  "slice_assign xs start vs = take start xs @ vs @ drop (start + length vs) xs"

record wstate =
  w_fiberId :: "int list"
  w_rows :: "rat list"
  w_profiles :: "rat list list"
  w_masks :: "bool list list"
  w_start :: nat

fun write_rows :: "prow list \<Rightarrow> wstate \<Rightarrow> wstate" where
  "write_rows [] st = st"
| "write_rows (MaskedRow d m # prof) st =
     write_rows prof (st\<lparr>w_profiles := w_profiles st @ [d], w_masks := w_masks st @ [m]\<rparr>)"
| "write_rows (PlainRow d # prof) st =
     write_rows prof (st\<lparr>w_profiles := w_profiles st @ [d], w_masks := w_masks st @ [[]]\<rparr>)"

text \<open>The loop \<^verbatim>\<open>for ii in range(self.length)\<close>: \<open>n\<close> iterations are left, \<open>ii\<close> is the
  index.  An index past the end of a list raises \<^verbatim>\<open>IndexError\<close>.\<close>

fun write_loop :: "pfsFiberProfiles \<Rightarrow> nat \<Rightarrow> nat \<Rightarrow> wstate \<Rightarrow> error + wstate" where
  "write_loop p 0 ii st = Inr st"
| "write_loop p (Suc n) ii st =
     (if \<not> ii < length (rows p) then Inl IndexError
      else if \<not> ii < length (profiles p) then Inl IndexError
      else if \<not> ii < length (fiberId p) then Inl IndexError
      else
        let num = length (rows p ! ii);
            prof = profiles p ! ii;
            st1 = st\<lparr>w_fiberId :=
                     slice_assign (w_fiberId st) (w_start st) (replicate num (fiberId p ! ii))\<rparr>;
            st2 = st1\<lparr>w_rows := slice_assign (w_rows st1) (w_start st1) (rows p ! ii)\<rparr>;
            st3 = write_rows prof st2
        in write_loop p n (Suc ii) (st3\<lparr>w_start := w_start st3 + num\<rparr>))"

definition writeImpl :: "pfsFiberProfiles \<Rightarrow> error + fits" where
  "writeImpl p =
     (let hdr = hset ''OBSTYPE'' (HStr ''fiberProfiles'') (astropyHeaderFromDict (metadata p));
          fibers = \<lparr>f_fiberId = fiberId p, f_radius = radius p, f_oversample = oversample p,
                     f_norm = normF p\<rparr>;
          numProfiles = sum_list (map length (rows p));
          st0 = \<lparr>w_fiberId = replicate numProfiles 0, w_rows = replicate numProfiles 0,
                  w_profiles = [], w_masks = [], w_start = 0\<rparr>
      in ebind (write_loop p (lengthF p) 0 st0) (\<lambda>st.
           Inr \<lparr>header = hdr, FIBERS = fibers,
                PROFILES = \<lparr>p_fiberId = w_fiberId st, p_rows = w_rows st,
                             p_profiles = w_profiles st, p_masks = w_masks st\<rparr>\<rparr>))"

subsection \<open>Reading\<close>

text \<open>\<^verbatim>\<open>a[select]\<close> for a boolean array \<open>select\<close>: the elements at the true positions, in
  order.\<close>

definition np_select :: "bool list \<Rightarrow> 'a list \<Rightarrow> 'a list" where
  "np_select sel xs = map snd (filter fst (zip sel xs))"

text \<open>\<^verbatim>\<open>np.array\<close> on a list of rows: the rows must have one length.\<close>

definition np_array :: "'a list list \<Rightarrow> error + 'a list list" where
  "np_array xs =
     (case xs of
        [] \<Rightarrow> Inr []
      | x # r \<Rightarrow> if list_all (\<lambda>y. length y = length x) r then Inr xs else Inl ValueError)"

fun chop :: "nat list \<Rightarrow> 'a list \<Rightarrow> 'a list list" where
  "chop [] xs = []"
| "chop (n # ns) xs = take n xs # chop ns (drop n xs)"

text \<open>
  \<^verbatim>\<open>np.ma.masked_array(data, mask=mask)\<close>.  \<open>None\<close> is \<^verbatim>\<open>mask=False\<close>: nothing is masked.
  A mask array of the data's shape is taken as it is; one of a single element is
  repeated over the data; one of the data's size is reshaped; any other raises
  \<^verbatim>\<open>MaskError\<close>.
\<close>

definition masked_array :: "rat list list \<Rightarrow> bool list list option \<Rightarrow> error + prow list" where
  "masked_array data msk =
     (case msk of
        None \<Rightarrow> Inr (map (\<lambda>d. MaskedRow d (replicate (length d) False)) data)
      | Some m \<Rightarrow>
          if map length m = map length data then Inr (map (\<lambda>dm. MaskedRow (fst dm) (snd dm)) (zip data m))
          else if length (concat m) = 1
            then Inr (map (\<lambda>d. MaskedRow d (replicate (length d) (hd (concat m)))) data)
          else if length (concat m) = length (concat data)
            then Inr (map (\<lambda>dm. MaskedRow (fst dm) (snd dm)) (zip data (chop (map length data) (concat m))))
          else Inl MaskError)"

text \<open>One pass of the loop \<^verbatim>\<open>for ii in range(numFibers)\<close>, for the fiber identifier
  \<^verbatim>\<open>fiberId1[ii]\<close>.\<close>

definition read_fiber :: "profilesHdu \<Rightarrow> int \<Rightarrow> error + (rat list \<times> prow list)" where
  "read_fiber hdu fid =
     (let select = map (\<lambda>f. f = fid) (p_fiberId hdu);
          ms = np_select select (p_masks hdu)
      in ebind (np_array (np_select select (p_profiles hdu))) (\<lambda>data.
         ebind (if length ms > 0 then ebind (np_array ms) (\<lambda>m. Inr (Some m)) else Inr None) (\<lambda>msk.
         ebind (masked_array data msk) (\<lambda>prof.
           Inr (np_select select (p_rows hdu), prof)))))"

fun read_loop :: "profilesHdu \<Rightarrow> int list \<Rightarrow> error + (rat list list \<times> prow list list)" where
  "read_loop hdu [] = Inr ([], [])"
| "read_loop hdu (fid # fids) =
     ebind (read_fiber hdu fid) (\<lambda>rp.
     ebind (read_loop hdu fids) (\<lambda>rest.
       Inr (fst rp # fst rest, snd rp # snd rest)))"

definition readImpl :: "fits \<Rightarrow> calibIdentity \<Rightarrow> error + pfsFiberProfiles" where
  "readImpl f ident =
     (let meta = astropyHeaderToDict (header f);
          fiberId1 = f_fiberId (FIBERS f)
      in ebind (read_loop (PROFILES f) fiberId1) (\<lambda>r.
           init ident fiberId1 (f_radius (FIBERS f)) (f_oversample (FIBERS f)) (fst r) (snd r)
             (f_norm (FIBERS f)) meta))"

subsection \<open>Files\<close>

text \<open>The file system maps a path to the container stored there.  \<open>pfs_read\<close> and
  \<open>pfs_write\<close> are the methods \<^verbatim>\<open>read\<close> and \<^verbatim>\<open>write\<close>.\<close>

definition filename :: "pfsFiberProfiles \<Rightarrow> error + string" where
  "filename p = getFilename (identity p)"

definition pfs_read :: "(string \<rightharpoonup> fits) \<Rightarrow> calibIdentity \<Rightarrow> string \<Rightarrow> error + pfsFiberProfiles" where
  "pfs_read fs ident dirName =
     ebind (getFilename ident) (\<lambda>name.
       let path = os_path_join dirName name in
       case fs path of
         None \<Rightarrow> Inl (FileNotFoundError path)
       | Some f \<Rightarrow> readImpl f ident)"

definition readFits :: "(string \<rightharpoonup> fits) \<Rightarrow> string \<Rightarrow> error + pfsFiberProfiles" where
  "readFits fs path =
     ebind (parseFilename path) (\<lambda>ident.
       case fs path of
         None \<Rightarrow> Inl (FileNotFoundError path)
       | Some f \<Rightarrow> readImpl f ident)"

definition writeFits :: "(string \<rightharpoonup> fits) \<Rightarrow> pfsFiberProfiles \<Rightarrow> string \<Rightarrow> error + (string \<rightharpoonup> fits)" where
  "writeFits fs p path = ebind (writeImpl p) (\<lambda>f. Inr (fs(path \<mapsto> f)))"

definition pfs_write :: "(string \<rightharpoonup> fits) \<Rightarrow> pfsFiberProfiles \<Rightarrow> string \<Rightarrow> error + (string \<rightharpoonup> fits)" where
  "pfs_write fs p dirName =
     ebind (filename p) (\<lambda>name. writeFits fs p (os_path_join dirName name))"

section \<open>Notions used in the statements\<close>




text \<open>An identity and four profile sets used in the examples: two fibers with distinct
  identifiers, the second without profiles; two fibers with the identifier 10, the second
  without profiles; two fibers with the identifier 10 and one profile each; and two fibers
  with distinct identifiers and masked entries.\<close>

definition id0 :: calibIdentity where
  "id0 = \<lparr>obsDate = PStr ''2024-01-02'', spectrograph = 1, arm = PStr ''b'', visit0 = 42\<rparr>"






section \<open>Filenames: what the code does\<close>

text \<open>
  C3.  \<^verbatim>\<open>getFilename\<close> calls \<^verbatim>\<open>identity.getDict()\<close>.  A \<^verbatim>\<open>CalibIdentity\<close> has no such
  attribute (the class defines \<^verbatim>\<open>toDict\<close>), so for every identity \<^verbatim>\<open>getFilename\<close> raises
  \<^verbatim>\<open>AttributeError\<close>, and so do the \<^verbatim>\<open>filename\<close> property, \<^verbatim>\<open>read\<close> and \<^verbatim>\<open>write\<close>, which
  call it before they touch a file.
\<close>

theorem getFilename_raises_AttributeError:
  "getFilename ident = Inl (AttributeError ''getDict'')
   \<and> filename p = Inl (AttributeError ''getDict'')
   \<and> pfs_read fs ident dirName = Inl (AttributeError ''getDict'')
   \<and> pfs_write fs p dirName = Inl (AttributeError ''getDict'')"
proof -
  have g: "getFilename i = Inl (AttributeError ''getDict'')" for i
    by (simp add: getFilename_def call0_def CalibIdentity_getattr_def ebind_def)
  show ?thesis
    by (simp add: g filename_def pfs_read_def pfs_write_def ebind_def)
qed

text \<open>
  C10.  \<^verbatim>\<open>parseFilename\<close> takes the basename of the path and searches it for the regex.
  When the regex does not match, it raises \<^verbatim>\<open>RuntimeError\<close> with the message
  \<^verbatim>\<open>Unable to parse filename\<close> (the spec's parse error); it returns an identity only for a
  basename the regex matches.
\<close>

theorem parseFilename_no_match:
  "(re_search PfsFiberProfiles_filenameRegex (snd (os_path_split path)) = None
      \<longrightarrow> parseFilename path
            = Inl (RuntimeError (''Unable to parse filename: '' @ snd (os_path_split path))))
   \<and> (\<forall>i. parseFilename path = Inr i
      \<longrightarrow> re_search PfsFiberProfiles_filenameRegex (snd (os_path_split path)) \<noteq> None)"
  by (auto simp add: parseFilename_def Let_def split: option.splits)

theorem parseFilename_no_match_witness:
  "re_search PfsFiberProfiles_filenameRegex (snd (os_path_split ''/data/pfsArm-xxxx.fits'')) = None
   \<and> parseFilename ''/data/pfsArm-xxxx.fits''
       = Inl (RuntimeError ''Unable to parse filename: pfsArm-xxxx.fits'')"
proof -
  have b: "snd (os_path_split ''/data/pfsArm-xxxx.fits'') = ''pfsArm-xxxx.fits''"
    by code_simp
  have h: "re_search PfsFiberProfiles_filenameRegex (snd (os_path_split ''/data/pfsArm-xxxx.fits'')) = None"
    by code_simp
  from parseFilename_no_match [of "''/data/pfsArm-xxxx.fits''"] h b show ?thesis
    by simp
qed


text \<open>
  C8.  The regex of \<^verbatim>\<open>PfsFiberProfiles\<close> has no \<^verbatim>\<open>^\<close>, and \<^verbatim>\<open>re.search\<close> looks for it
  anywhere in the basename: a basename with text before \<^verbatim>\<open>pfsFiberProfiles-\<close> parses,
  where the claim has it refused.  The regexes of the five reduction products start with
  \<^verbatim>\<open>^\<close>.
\<close>

theorem parseFilename_leading_text:
  "parseFilename ''junkpfsFiberProfiles-2024-01-02-000042-b1.fits''
     = Inr \<lparr>obsDate = PStr ''2024-01-02'', spectrograph = 1, arm = PStr ''b'', visit0 = 42\<rparr>"
  by code_simp

text \<open>
  C9.  The format of \<^verbatim>\<open>PfsObject\<close> writes \<^verbatim>\<open>objId\<close> with \<^verbatim>\<open>%016x\<close> and \<^verbatim>\<open>expHash\<close> with
  \<^verbatim>\<open>%08x\<close>: sixteen and eight hexadecimal digits with no \<^verbatim>\<open>0x\<close> before them.  The regex
  of the same class asks for \<^verbatim>\<open>0x\<close> before each, so the rendered name is not the
  canonical basename and does not parse.
\<close>

theorem PfsObject_getFilename_no_0x:
  "product_getFilename PfsObject
     [(''catId'', PInt 7), (''tract'', PInt 321), (''patch'', PStr ''5,7''),
      (''objId'', PInt 0xdeadbeef), (''numExp'', PInt 3), (''expHash'', PInt 0xcafef00d)]
     = Inr ''pfsObject-007-00321-5,7-00000000deadbeef-003-cafef00d.fits''
   \<and> product_parseFilename PfsObject ''pfsObject-007-00321-5,7-00000000deadbeef-003-cafef00d.fits''
     = Inl (RuntimeError
         ''Unable to parse filename: pfsObject-007-00321-5,7-00000000deadbeef-003-cafef00d.fits'')"
  by code_simp

lemma PfsObject_parse_canonical:
  "product_parseFilename PfsObject
     ''pfsObject-007-00321-5,7-0x00000000deadbeef-003-0xcafef00d.fits''
     = Inr [(''catId'', PInt 7), (''tract'', PInt 321), (''patch'', PStr ''5,7''),
            (''objId'', PInt 0xdeadbeef), (''numExp'', PInt 3), (''expHash'', PInt 0xcafef00d)]"
  by code_simp

section \<open>Profiles: what the code does\<close>

text \<open>
  C7.  The reader decides between the stored masks and \<^verbatim>\<open>mask=False\<close> by
  \<^verbatim>\<open>masks[select].size\<close>, the number of rows selected for the fiber, not by the length of
  a row's mask.  A fiber with one row of thirteen values and a stored mask of length 0
  is not read as unmasked: the mask array of shape (1, 0) does not fit the data of shape
  (1, 13) and \<^verbatim>\<open>masked_array\<close> raises \<^verbatim>\<open>MaskError\<close>.
\<close>

theorem readImpl_empty_mask_row:
  "readImpl
     \<lparr>header = [],
      FIBERS = \<lparr>f_fiberId = [10], f_radius = [1], f_oversample = [3], f_norm = [[]]\<rparr>,
      PROFILES = \<lparr>p_fiberId = [10], p_rows = [100], p_profiles = [replicate 13 0],
                  p_masks = [[]]\<rparr>\<rparr>
     id0
     = Inl MaskError"
  by code_simp


section \<open>Construction: what \<^verbatim>\<open>validate\<close> checks\<close>

lemma validate_error:
  "validate p = Inl e \<Longrightarrow> e = AssertionError"
  by (simp add: validate_def split: if_splits)

lemma init_error:
  "init ident fid rad samp rws profs nrm meta = Inl e \<Longrightarrow> e = AssertionError"
  by (auto simp add: init_def Let_def ebind_def dest: validate_error split: sum.splits)

text \<open>
  C4.  \<^verbatim>\<open>validate\<close> compares lengths and profile widths and never looks at the values of
  \<^verbatim>\<open>fiberId\<close>: there is no \<^verbatim>\<open>DuplicateIdError\<close> and no test for repeated identifiers.
  Whenever the constructor accepts its arguments, it accepts them with any other
  \<^verbatim>\<open>fiberId\<close> array of the same length, one with repeated values included, and returns
  the same object with that array.
\<close>

theorem init_ignores_fiberId_values:
  assumes "length fid' = length fid"
    and "init ident fid rad samp rws profs nrm meta = Inr p"
  shows "init ident fid' rad samp rws profs nrm meta = Inr (p\<lparr>fiberId := fid'\<rparr>)"
  using assms
  by (auto simp add: init_def Let_def ebind_def validate_def split: sum.splits if_splits)

theorem init_ignores_fiberId_values_witness:
  "length [10, 10 :: int] = length [10, 11 :: int]
   \<and> init id0 [10, 11] [1, 1] [3, 3] [[100], [200]]
       [[MaskedRow (replicate 13 0) (replicate 13 False)],
        [MaskedRow (replicate 13 1) (replicate 13 False)]] [[], []] []
     = Inr \<lparr>identity = id0, fiberId = [10, 11], radius = [1, 1], oversample = [3, 3],
            rows = [[100], [200]],
            profiles = [[MaskedRow (replicate 13 0) (replicate 13 False)],
                        [MaskedRow (replicate 13 1) (replicate 13 False)]],
            normF = [[], []], metadata = [], lengthF = 2\<rparr>
   \<and> init id0 [10, 10] [1, 1] [3, 3] [[100], [200]]
       [[MaskedRow (replicate 13 0) (replicate 13 False)],
        [MaskedRow (replicate 13 1) (replicate 13 False)]] [[], []] []
     = Inr \<lparr>identity = id0, fiberId = [10, 10], radius = [1, 1], oversample = [3, 3],
            rows = [[100], [200]],
            profiles = [[MaskedRow (replicate 13 0) (replicate 13 False)],
                        [MaskedRow (replicate 13 1) (replicate 13 False)]],
            normF = [[], []], metadata = [], lengthF = 2\<rparr>"
proof -
  have a: "init id0 [10, 11] [1, 1] [3, 3] [[100], [200]]
       [[MaskedRow (replicate 13 0) (replicate 13 False)],
        [MaskedRow (replicate 13 1) (replicate 13 False)]] [[], []] []
     = Inr \<lparr>identity = id0, fiberId = [10, 11], radius = [1, 1], oversample = [3, 3],
            rows = [[100], [200]],
            profiles = [[MaskedRow (replicate 13 0) (replicate 13 False)],
                        [MaskedRow (replicate 13 1) (replicate 13 False)]],
            normF = [[], []], metadata = [], lengthF = 2\<rparr>"
    by code_simp
  from init_ignores_fiberId_values [of "[10, 10]" "[10, 11]", OF _ a] a show ?thesis
    by simp
qed

text \<open>The constructor accepts \<^verbatim>\<open>fiberId=[10,10]\<close> with valid shapes and raises nothing.\<close>

theorem init_accepts_duplicate_fiberId:
  "init id0 [10, 10] [1, 1] [3, 3] [[100], [200]]
     [[MaskedRow (replicate 13 0) (replicate 13 False)],
      [MaskedRow (replicate 13 1) (replicate 13 False)]] [[], []] []
   = Inr \<lparr>identity = id0, fiberId = [10, 10], radius = [1, 1], oversample = [3, 3],
          rows = [[100], [200]],
          profiles = [[MaskedRow (replicate 13 0) (replicate 13 False)],
                      [MaskedRow (replicate 13 1) (replicate 13 False)]],
          normF = [[], []], metadata = [], lengthF = 2\<rparr>"
  by code_simp





section \<open>Writing and reading\<close>




































end
